theory Spec2Isabelle
  imports Complex_Main
begin

section \<open>Python values, errors and string helpers\<close>

text \<open>
  Exceptions of the source are values: every \<open>raise\<close> (explicit, or implied by a
  built-in such as \<open>int\<close>, indexing, tuple unpacking or \<open>math.acos\<close>) is an \<open>Inl\<close>
  branch of the model.  Strings are ASCII byte strings.
\<close>

datatype py_error =
    FileNotFoundError
  | PyException
  | ValueError
  | RuntimeError
  | IndexError
  | KeyError
  | UnboundLocalError
  | ZeroDivisionError

text \<open>\<open>str.isspace\<close> on ASCII: TAB, LF, VT, FF, CR, FS, GS, RS, US and the blank.\<close>

definition is_space :: "char \<Rightarrow> bool" where
  "is_space c = (let n = (of_char c :: nat) in (9 \<le> n \<and> n \<le> 13) \<or> (28 \<le> n \<and> n \<le> 32))"

definition is_digit :: "char \<Rightarrow> bool" where
  "is_digit c = (let n = (of_char c :: nat) in 48 \<le> n \<and> n \<le> 57)"

definition digit_val :: "char \<Rightarrow> nat" where
  "digit_val c = (of_char c :: nat) - 48"

text \<open>\<open>s.strip(chars)\<close> and \<open>s.strip()\<close>.\<close>

definition strip_chars :: "string \<Rightarrow> string \<Rightarrow> string" where
  "strip_chars chars s =
     rev (dropWhile (\<lambda>c. c \<in> set chars) (rev (dropWhile (\<lambda>c. c \<in> set chars) s)))"

definition strip :: "string \<Rightarrow> string" where
  "strip s = rev (dropWhile is_space (rev (dropWhile is_space s)))"

text \<open>
  \<open>int(s)\<close> and \<open>float(s)\<close> drop a narrower set of surrounding characters than
  \<open>str.strip\<close> does on an ASCII string: TAB, LF, VT, FF, CR and the blank, without the
  four separators FS, GS, RS and US.
\<close>

definition is_c_space :: "char \<Rightarrow> bool" where
  "is_c_space c = (let n = (of_char c :: nat) in (9 \<le> n \<and> n \<le> 13) \<or> n = 32)"

definition strip_c :: "string \<Rightarrow> string" where
  "strip_c s = rev (dropWhile is_c_space (rev (dropWhile is_c_space s)))"

text \<open>
  \<open>int(s)\<close> on a string, base 10: surrounding whitespace is dropped, one sign is
  allowed, and the digits may be grouped by single underscores.  \<open>None\<close> is the
  \<open>ValueError\<close>.
\<close>

fun py_digits :: "nat \<Rightarrow> string \<Rightarrow> nat option" where
  "py_digits acc [] = None"
| "py_digits acc (c # cs) =
     (if \<not> is_digit c then None
      else (case cs of
              [] \<Rightarrow> Some (10 * acc + digit_val c)
            | d # ds \<Rightarrow>
                if d = CHR ''_'' then py_digits (10 * acc + digit_val c) ds
                else py_digits (10 * acc + digit_val c) cs))"

definition py_int :: "string \<Rightarrow> int option" where
  "py_int s =
     (case strip_c s of
        [] \<Rightarrow> None
      | c # cs \<Rightarrow>
          if c = CHR ''-'' then map_option (\<lambda>n. - int n) (py_digits 0 cs)
          else if c = CHR ''+'' then map_option int (py_digits 0 cs)
          else map_option int (py_digits 0 (c # cs)))"

text \<open>\<open>str(n)\<close> for an integer.\<close>

fun str_nat :: "nat \<Rightarrow> string" where
  "str_nat n =
     (if n < 10 then [char_of (48 + n)]
      else str_nat (n div 10) @ [char_of (48 + n mod 10)])"

declare str_nat.simps [simp del]

definition py_str :: "int \<Rightarrow> string" where
  "py_str i = (if i < 0 then CHR ''-'' # str_nat (nat (- i)) else str_nat (nat i))"

text \<open>\<open>s.replace(c, t)\<close> for a one-character pattern \<open>c\<close>.\<close>

definition replace_char :: "string \<Rightarrow> char \<Rightarrow> string \<Rightarrow> string" where
  "replace_char s c t = concat (map (\<lambda>x. if x = c then t else [x]) s)"

text \<open>\<open>s.rfind(c)\<close>: the last index of \<open>c\<close>, or \<open>-1\<close>.\<close>

definition rfind :: "string \<Rightarrow> char \<Rightarrow> int" where
  "rfind s c =
     (case filter (\<lambda>i. s ! i = c) (rev [0..<length s]) of
        [] \<Rightarrow> - 1
      | i # _ \<Rightarrow> int i)"

text \<open>
  \<open>os.path.splitext\<close> (POSIX): the extension starts at the last dot of the last path
  component, unless that component has only leading dots before it.
\<close>

definition splitext :: "string \<Rightarrow> string \<times> string" where
  "splitext p =
     (let sepIndex = rfind p CHR ''/'';
          dotIndex = rfind p CHR ''.''
      in if dotIndex > sepIndex
            \<and> list_ex (\<lambda>i. p ! i \<noteq> CHR ''.'') [nat (sepIndex + 1)..<nat dotIndex]
         then (take (nat dotIndex) p, drop (nat dotIndex) p)
         else (p, []))"

text \<open>\<open>os.path.join(a, b)\<close> (POSIX).\<close>

definition path_join :: "string \<Rightarrow> string \<Rightarrow> string" where
  "path_join a b =
     (if b \<noteq> [] \<and> hd b = CHR ''/'' then b
      else if a = [] \<or> last a = CHR ''/'' then a @ b
      else a @ ''/'' @ b)"

text \<open>\<open>max(xs)\<close> on a list; the empty list raises \<open>ValueError\<close>.\<close>

fun py_max :: "int list \<Rightarrow> py_error + int" where
  "py_max [] = Inl ValueError"
| "py_max (x # xs) = Inr (fold max xs x)"

section \<open>Checkpoint resolution in \<open>LAMMPS.run\<close>\<close>

text \<open>
  Lines 604--623 (and again 903--924).  The state of the \<open>for\<close> loop is the triple
  \<open>(accum_dump, run_lengths, last_snapshot)\<close>: the loop variable is named
  \<open>accum_dump\<close>, the name that held the glob pattern before the loop, so each
  iteration overwrites the pattern with the filename it visits.  \<open>last_snapshot\<close> is
  unbound before the first iteration, which the caller has excluded by the length test.
\<close>

type_synonym scan_state = "string \<times> int list \<times> string"

fun scan_dumps :: "string list \<Rightarrow> scan_state \<Rightarrow> py_error + scan_state" where
  "scan_dumps [] st = Inr st"
| "scan_dumps (f # fs) (accum_dump, run_lengths, last_snapshot) =
     (case py_int (strip_chars ''.'' (snd (splitext f))) of
        None \<Rightarrow> Inl PyException
      | Some ext \<Rightarrow>
          (case py_max (run_lengths @ [ext]) of
             Inl e \<Rightarrow> Inl e
           | Inr m \<Rightarrow> scan_dumps fs (f, run_lengths @ [ext], py_str m)))"

text \<open>
  \<open>accum_dump_filenames\<close> is what \<open>glob.glob\<close> returned, in the order it returned it.
  The result is the path handed to \<open>read_dump\<close>, together with \<open>last_snapshot\<close>.
\<close>

definition resolve_checkpoint :: "string \<Rightarrow> string \<Rightarrow> string list \<Rightarrow> py_error + (string \<times> string)" where
  "resolve_checkpoint directory accum_dump accum_dump_filenames =
     (if length accum_dump_filenames = 0 then Inl FileNotFoundError
      else (case scan_dumps accum_dump_filenames (accum_dump, [], []) of
              Inl e \<Rightarrow> Inl e
            | Inr (accum_dump', run_lengths, last_snapshot) \<Rightarrow>
                Inr (path_join directory (replace_char accum_dump' CHR ''*'' last_snapshot),
                     last_snapshot)))"

section \<open>Sequencing of fallible steps\<close>

definition ebind :: "'e + 'a \<Rightarrow> ('a \<Rightarrow> 'e + 'b) \<Rightarrow> 'e + 'b" where
  "ebind m f = (case m of Inl e \<Rightarrow> Inl e | Inr x \<Rightarrow> f x)"

section \<open>Cell parameters and the LAMMPS box\<close>

text \<open>
  Python floats are modelled by the reals: rounding is not modelled, the domain errors
  of \<open>math.sqrt\<close> and \<open>math.acos\<close> and the \<open>ZeroDivisionError\<close> of float division are.
\<close>

definition radians :: "real \<Rightarrow> real" where
  "radians d = d * pi / 180"

definition degrees :: "real \<Rightarrow> real" where
  "degrees r = r * 180 / pi"

definition py_sqrt :: "real \<Rightarrow> py_error + real" where
  "py_sqrt x = (if x < 0 then Inl ValueError else Inr (sqrt x))"

definition py_acos :: "real \<Rightarrow> py_error + real" where
  "py_acos x = (if - 1 \<le> x \<and> x \<le> 1 then Inr (arccos x) else Inl ValueError)"

definition py_divide :: "real \<Rightarrow> real \<Rightarrow> py_error + real" where
  "py_divide x y = (if y = 0 then Inl ZeroDivisionError else Inr (x / y))"

type_synonym six = "real \<times> real \<times> real \<times> real \<times> real \<times> real"

text \<open>\<open>LAMMPS.box_to_cell\<close>, lines 271--290.\<close>

definition box_to_cell :: "real \<Rightarrow> real \<Rightarrow> real \<Rightarrow> real \<Rightarrow> real \<Rightarrow> real \<Rightarrow> py_error + six" where
  "box_to_cell lx ly lz xy xz yz =
     (if xy = 0 \<and> xz = 0 \<and> yz = 0 then Inr (lx, ly, lz, 0, 0, 0)
      else
        ebind (py_sqrt (ly\<^sup>2 + xy\<^sup>2)) (\<lambda>b.
        ebind (py_sqrt (lz\<^sup>2 + xz\<^sup>2 + yz\<^sup>2)) (\<lambda>c.
        ebind (py_divide (xy * xz + lx * yz) (b * c)) (\<lambda>qa.
        ebind (py_acos qa) (\<lambda>ra.
        ebind (py_divide xz c) (\<lambda>qb.
        ebind (py_acos qb) (\<lambda>rb.
        ebind (py_divide xy b) (\<lambda>qg.
        ebind (py_acos qg) (\<lambda>rg.
          Inr (lx, b, c, degrees ra, degrees rb, degrees rg))))))))))"

text \<open>\<open>LAMMPS.cell_to_box\<close>, lines 292--308.\<close>

definition cell_to_box :: "real \<Rightarrow> real \<Rightarrow> real \<Rightarrow> real \<Rightarrow> real \<Rightarrow> real \<Rightarrow> py_error + six" where
  "cell_to_box a b c alpha beta gamma =
     (if alpha = 90 \<and> beta = 90 \<and> gamma = 90 then Inr (a, b, c, 0, 0, 0)
      else
        (let lx = 0;
             xy = b * cos (radians gamma);
             xz = c * cos (radians beta)
         in ebind (py_sqrt (b\<^sup>2 - xy\<^sup>2)) (\<lambda>ly.
            ebind (py_divide (b * c * cos (radians alpha) - xy * xz) ly) (\<lambda>yz.
            ebind (py_sqrt (c\<^sup>2 - xz\<^sup>2 - yz\<^sup>2)) (\<lambda>lz.
              Inr (lx, ly, lz, xy, xz, yz))))))"

text \<open>The composition the round-trip property is about.\<close>

definition cell_roundtrip :: "real \<Rightarrow> real \<Rightarrow> real \<Rightarrow> real \<Rightarrow> real \<Rightarrow> real \<Rightarrow> py_error + six" where
  "cell_roundtrip a b c alpha beta gamma =
     ebind (cell_to_box a b c alpha beta gamma)
       (\<lambda>(lx, ly, lz, xy, xz, yz). box_to_cell lx ly lz xy xz yz)"

section \<open>The box section of \<open>LAMMPS.structure_data\<close>\<close>

text \<open>
  Lines 958--999.  The energy expression is a dictionary; the three entries this part
  reads are the fields of the record.  A line of the structure file is kept as its
  format and arguments: \<open>LoHi lo hi ''x''\<close> is \<open>'{} {} xlo xhi'.format(lo, hi)\<close> and
  \<open>Tilt xy xz yz\<close> is \<open>'{} {} {} xy xz yz'.format(xy, xz, yz)\<close>.  Over the reals
  \<open>cos (radians 90)\<close> is exactly 0, where the double is about \<open>6.1e-17\<close>: a tilt factor
  that is 0 here can be a positive number below \<open>1e-15\<close> in the code, and the test
  \<open>xz > 0.0\<close> of line 974 then differs when \<open>\<bar>xy\<bar> > 1e-6\<close>.
\<close>

record eex =
  periodicity :: int
  cell :: six
  atoms :: "(real \<times> real \<times> real \<times> int) list"

datatype data_line = LoHi real real string | Tilt real real real

type_synonym limits = "real \<times> real \<times> real \<times> real \<times> real \<times> real"

text \<open>One pass of the loop over the atoms of a molecule, lines 981--987.\<close>

fun grow_limits :: "limits \<Rightarrow> (real \<times> real \<times> real \<times> int) \<Rightarrow> limits" where
  "grow_limits (xlo, xhi, ylo, yhi, zlo, zhi) (x, y, z, index) =
     (let xlo' = (if x < xlo then x else xlo);
          xhi' = (if x > xhi then x else xlo');
          ylo' = (if y < ylo then y else ylo);
          yhi' = (if y > yhi then y else ylo');
          zlo' = (if z < zlo then z else zlo);
          zhi' = (if z > zhi then z else zlo')
      in (xlo', xhi', ylo', yhi', zlo', zhi'))"

definition box_section :: "eex \<Rightarrow> bool \<Rightarrow> py_error + data_line list" where
  "box_section e triclinic =
     (if periodicity e = 3 then
        (case cell e of (a, b, c, alpha, beta, gamma) \<Rightarrow>
           ebind (cell_to_box a b c alpha beta gamma) (\<lambda>(lx, ly, lz, xy, xz, yz).
             let lines = [LoHi 0 lx ''x'', LoHi 0 ly ''y'', LoHi 0 lz ''z''];
                 xy' = (if \<bar>xy\<bar> > 1 / 10 ^ 6 then xy else 0);
                 xz' = (if \<bar>xy'\<bar> > 1 / 10 ^ 6 then xz else 0);
                 yz' = (if \<bar>xy'\<bar> > 1 / 10 ^ 6 then yz else 0)
             in if triclinic \<or> xy' > 0 \<or> xz' > 0 \<or> yz' > 0
                then Inr (lines @ [Tilt xy' xz' yz'])
                else Inr lines))
      else
        (case atoms e of
           [] \<Rightarrow> Inl IndexError
         | (x, y, z, index) # _ \<Rightarrow>
             (case fold (\<lambda>atom lim. grow_limits lim atom) (atoms e) (x, x, y, y, z, z) of
                (xlo, xhi, ylo, yhi, zlo, zhi) \<Rightarrow>
                  Inr [LoHi (xlo - 10) (xhi + 10) ''x'',
                       LoHi (ylo - 10) (yhi + 10) ''y'',
                       LoHi (zlo - 10) (zhi + 10) ''z''])))"


section \<open>Statistical analysis of a trajectory\<close>

text \<open>
  \<open>LAMMPS.analyze_trajectory\<close>, lines 1530--1920.  The values stored in the
  \<open>results\<close> dictionary are booleans, integers and floats.
\<close>

datatype py_value = PyBool bool | PyInt int | PyFloat real

text \<open>\<open>round(x)\<close> on a float: the nearest integer, a tie going to the even one.\<close>

definition py_round :: "real \<Rightarrow> int" where
  "py_round x =
     (let f = \<lfloor>x\<rfloor>; d = x - of_int f
      in if d < 1 / 2 then f
         else if d > 1 / 2 then f + 1
         else if even f then f else f + 1)"

text \<open>\<open>ndarray.mean()\<close> and \<open>ndarray.std()\<close> (the population standard deviation).\<close>

definition np_mean :: "real list \<Rightarrow> real" where
  "np_mean xs = sum_list xs / real (length xs)"

definition np_std :: "real list \<Rightarrow> real" where
  "np_std xs = sqrt (np_mean (map (\<lambda>x. (x - np_mean xs)\<^sup>2) xs))"

text \<open>
  \<open>a[indices]\<close> with a list of integer indices: a negative index counts from the end,
  an index out of range raises \<open>IndexError\<close>.
\<close>

definition np_take :: "real list \<Rightarrow> int list \<Rightarrow> py_error + real list" where
  "np_take xs indices =
     (if list_all (\<lambda>i. - int (length xs) \<le> i \<and> i < int (length xs)) indices
      then Inr (map (\<lambda>i. xs ! nat (if i < 0 then i + int (length xs) else i)) indices)
      else Inl IndexError)"

text \<open>
  The two functions of \<open>pymbar.timeseries\<close> that the analysis calls are parameters of
  the model: \<open>detectEquilibration\<close> answers \<open>(conv, inefficiency, Neff_max)\<close>, and
  \<open>subsampleCorrelatedData\<close> the indices of the samples it keeps.
\<close>

record timeseries =
  detectEquilibration :: "real list \<Rightarrow> nat \<times> real \<times> real"
  subsampleCorrelatedData :: "real list \<Rightarrow> real \<Rightarrow> int list"

text \<open>Lines 1566--1581: the unit of the time axis, chosen from the trajectory length.\<close>

definition trajectory_time_units :: "real \<Rightarrow> string \<times> real" where
  "trajectory_time_units len_trj =
     (if len_trj \<ge> 4000000000 then (''ms'', 1000000000)
      else if len_trj \<ge> 4000000 then (''ns'', 1000000)
      else if len_trj \<ge> 4000 then (''ps'', 1000)
      else (''fs'', 1))"

text \<open>Lines 1649--1660: the unit and the value printed for the convergence time.\<close>

definition conv_time_units :: "real \<Rightarrow> string \<times> real" where
  "conv_time_units t0 =
     (if t0 \<ge> 1000000000 then (''ms'', t0 / 1000000000)
      else if t0 \<ge> 1000000 then (''ns'', t0 / 1000000)
      else if t0 \<ge> 1000 then (''ps'', t0 / 1000)
      else (''fs'', t0))"

text \<open>Lines 1662--1673: the same for the autocorrelation time.\<close>

definition tau_time_units :: "real \<Rightarrow> string \<times> real" where
  "tau_time_units tau =
     (if tau \<ge> 1000000000 then (''ms'', tau / 1000000000)
      else if tau \<ge> 1000000 then (''ns'', tau / 1000000)
      else if tau \<ge> 1000 then (''ps'', tau / 1000)
      else (''fs'', tau))"

text \<open>Lines 1631--1633: the number of lags asked of \<open>stattools.acf\<close>.\<close>

definition acf_nlags :: "real \<Rightarrow> nat \<Rightarrow> int" where
  "acf_nlags inefficiency n =
     (let nlags = 4 * py_round (inefficiency + 1 / 2)
      in if nlags > int (n div 2) then int (n div 2) else nlags)"

text \<open>The call \<open>stattools.acf(y_t_equil, nlags=.., alpha=0.05, fft=.., unbiased=False)\<close>.\<close>

record acf_call =
  acf_x :: "real list"
  acf_lags :: int
  acf_alpha :: real
  acf_fft :: bool
  acf_unbiased :: bool

text \<open>What \<open>print\<close> wrote, and the lines handed to \<open>printer.normal\<close>.\<close>

datatype printed = PStr string | PArray "real list" | PIndices "int list"

record report_row =
  row_column :: string
  row_value :: real
  row_stderr :: real
  row_warn :: string
  row_t0 :: real
  row_conv_units :: string
  row_tau :: real
  row_tau_units :: string
  row_acf :: string
  row_inefficiency :: real

datatype report_line = Row report_row | Legend string

text \<open>
  The state of the loop over the columns.  \<open>have_warning\<close> and \<open>have_acf_warning\<close>
  are locals first bound inside the loop and read after it: \<open>None\<close> is unbound.
\<close>

record analysis_state =
  results :: "string \<rightharpoonup> py_value"
  printed_out :: "printed list"
  report :: "report_line list"
  acf_calls :: "acf_call list"
  have_warning :: "bool option"
  have_acf_warning :: "bool option"

text \<open>The keys of \<open>LAMMPS.display_title\<close> (and of \<open>display_units\<close>), lines 104--130.\<close>

definition display_title :: "(string \<times> string) list" where
  "display_title =
     [(''T'', ''Temperature''), (''P'', ''Pressure''), (''t'', ''Time''),
      (''density'', ''Density''), (''a'', ''a lattice parameter''),
      (''b'', ''b lattice parameter''), (''c'', ''c lattice parameter''),
      (''Etot'', ''Total Energy''), (''Eke'', ''Kinetic Energy''),
      (''Epe'', ''Potential Energy''),
      (''Emol'', ''Molecular Energy, Valence Terms''),
      (''Epair'', ''Pair (Nonbond) Energy'')]"

text \<open>
  One pass of the loop, lines 1585--1868.  The figures are not modelled beyond the
  lookup \<open>LAMMPS.display_title[column]\<close> that opens them, which raises \<open>KeyError\<close>
  for a column the table does not name.
\<close>

definition analyze_column ::
  "timeseries \<Rightarrow> real \<Rightarrow> string \<times> real list \<Rightarrow> analysis_state \<Rightarrow> py_error + analysis_state" where
  "analyze_column ts dt_fs cy st =
     (case cy of (column, yy) \<Rightarrow>
      (case detectEquilibration ts yy of (conv, inefficiency, Neff_max) \<Rightarrow>
         let tau0 = dt_fs * (inefficiency - 1) / 2;
             tau = (if tau0 < dt_fs / 2 then dt_fs / 2 else tau0);
             t0 = real conv * dt_fs;
             y_t_equil = drop conv yy;
             indices = subsampleCorrelatedData ts y_t_equil inefficiency
         in if length indices = 0 then
              Inr (st\<lparr>printed_out := printed_out st @
                         [PStr (''Problem with column '' @ column),
                          PStr ''yy'', PArray yy,
                          PStr ''y_t_equil'', PArray y_t_equil,
                          PStr ''indices'', PIndices indices],
                      have_warning := Some False,
                      have_acf_warning := Some False\<rparr>)
            else
              ebind (np_take y_t_equil indices) (\<lambda>y_n.
                let n_samples = length y_n;
                    mean = np_mean y_n;
                    std = np_std y_n;
                    sem = std / sqrt (real n_samples);
                    short = (length y_t_equil < 10000);
                    calls =
                      (if short then []
                       else [\<lparr>acf_x = y_t_equil,
                               acf_lags = acf_nlags inefficiency (length y_t_equil),
                               acf_alpha = 5 / 100,
                               acf_fft = (acf_nlags inefficiency (length y_t_equil) > 16),
                               acf_unbiased = False\<rparr>]);
                    few = (n_samples < 100);
                    row = \<lparr>row_column = column, row_value = mean, row_stderr = sem,
                            row_warn = (if few then ''*'' else '' ''),
                            row_t0 = snd (conv_time_units t0),
                            row_conv_units = fst (conv_time_units t0),
                            row_tau = snd (tau_time_units tau),
                            row_tau_units = fst (tau_time_units tau),
                            row_acf = (if short then ''^'' else '' ''),
                            row_inefficiency = inefficiency\<rparr>;
                    st' = st\<lparr>results := (results st)
                                 (column \<mapsto> PyFloat mean,
                                  column @ '',stderr'' \<mapsto> PyFloat sem,
                                  column @ '',n_sample'' \<mapsto> PyInt (int n_samples),
                                  column @ '',short_production_warning'' \<mapsto> PyBool short,
                                  column @ '',few_neff_warning'' \<mapsto> PyBool few),
                              report := report st @ [Row row],
                              acf_calls := acf_calls st @ calls,
                              have_warning := Some few,
                              have_acf_warning := Some short\<rparr>
                in (case map_of display_title column of
                      None \<Rightarrow> Inl KeyError
                    | Some title \<Rightarrow> Inr st'))))"

fun analyze_columns ::
  "timeseries \<Rightarrow> real \<Rightarrow> (string \<times> real list) list \<Rightarrow> analysis_state \<Rightarrow> py_error + analysis_state" where
  "analyze_columns ts dt_fs [] st = Inr st"
| "analyze_columns ts dt_fs (cy # cys) st =
     ebind (analyze_column ts dt_fs cy st) (analyze_columns ts dt_fs cys)"

text \<open>
  The table read from the trajectory file: the index \<open>t\<close> and the remaining columns
  with their names, in file order.  The loop runs over \<open>data.columns[1:]\<close>.
\<close>

record trajectory =
  t_index :: "real list"
  columns :: "(string \<times> real list) list"

definition initial_analysis :: analysis_state where
  "initial_analysis =
     \<lparr>results = Map.empty, printed_out = [], report = [], acf_calls = [],
      have_warning = None, have_acf_warning = None\<rparr>"

definition legend_lines :: "bool \<Rightarrow> bool \<Rightarrow> report_line list" where
  "legend_lines w a =
     (if w \<or> a then [Legend [CHR 0x0A]] else []) @
     (if w then [Legend ''          * this property has less than 100 independent samples, so may not be accurate.''] else []) @
     (if a then [Legend ''          ^ there are not enough samples after equilibration to plot the ACF.''] else [])"

definition analyze_trajectory :: "timeseries \<Rightarrow> trajectory \<Rightarrow> py_error + analysis_state" where
  "analyze_trajectory ts data =
     (case t_index data of
        t_first # t_second # _ \<Rightarrow>
          ebind (analyze_columns ts (t_second - t_first) (drop 1 (columns data)) initial_analysis)
            (\<lambda>st. case (have_warning st, have_acf_warning st) of
                    (Some w, Some a) \<Rightarrow> Inr (st\<lparr>report := report st @ legend_lines w a\<rparr>)
                  | _ \<Rightarrow> Inl UnboundLocalError)
      | _ \<Rightarrow> Inl IndexError)"

text \<open>
  The bucket boundaries as the specification words them, for comparison with
  \<open>conv_time_units\<close> and \<open>tau_time_units\<close>.
\<close>

definition spec_time_bucket :: "real \<Rightarrow> string" where
  "spec_time_bucket v =
     (if v \<ge> 4 * 10 ^ 9 then ''ms''
      else if v \<ge> 4 * 10 ^ 6 then ''ns''
      else if v \<ge> 4 * 10 ^ 3 then ''ps''
      else ''fs'')"

text \<open>
  The number of lags as the specification words it,
  \<open>min(4*ceil(g+0.5), len(tail)/2)\<close>, for comparison with \<open>acf_nlags\<close>.
\<close>

definition spec_nlags :: "real \<Rightarrow> nat \<Rightarrow> int" where
  "spec_nlags g n = min (4 * \<lceil>g + 1 / 2\<rceil>) (int (n div 2))"

definition acf_lags_requested :: "py_error + analysis_state \<Rightarrow> int list" where
  "acf_lags_requested r = (case r of Inl e \<Rightarrow> [] | Inr st \<Rightarrow> map acf_lags (acf_calls st))"

text \<open>
  The entry \<open>results['<column>,few_neff_warning']\<close> after a pass that returned
  (\<open>None\<close>: the key is absent).
\<close>

definition few_neff_entry :: "py_error + analysis_state \<Rightarrow> string \<Rightarrow> py_error + py_value option" where
  "few_neff_entry r column =
     (case r of Inl e \<Rightarrow> Inl e | Inr st \<Rightarrow> Inr (results st (column @ '',few_neff_warning'')))"

section \<open>The convergence test at the end of one pass of the run loop\<close>

text \<open>More string methods: \<open>s.split()\<close>, \<open>sub in s\<close> and \<open>sep.join(words)\<close>.\<close>

fun split_acc :: "string \<Rightarrow> string \<Rightarrow> string list" where
  "split_acc w [] = (if w = [] then [] else [rev w])"
| "split_acc w (c # cs) =
     (if is_space c then (if w = [] then split_acc [] cs else rev w # split_acc [] cs)
      else split_acc (c # w) cs)"

definition split_ws :: "string \<Rightarrow> string list" where
  "split_ws s = split_acc [] s"

fun contains :: "string \<Rightarrow> string \<Rightarrow> bool" where
  "contains sub [] = (sub = [])"
| "contains sub (c # cs) = (take (length sub) (c # cs) = sub \<or> contains sub cs)"

fun join :: "string \<Rightarrow> string list \<Rightarrow> string" where
  "join sep [] = []"
| "join sep [w] = w"
| "join sep (w # ws) = w @ sep @ join sep ws"

text \<open>\<open>d[k]\<close> on a dictionary, and \<open>v is False\<close>.\<close>

definition getitem :: "(string \<rightharpoonup> py_value) \<Rightarrow> string \<Rightarrow> py_error + py_value" where
  "getitem d k = (case d k of None \<Rightarrow> Inl KeyError | Some v \<Rightarrow> Inr v)"

definition is_False :: "py_value \<Rightarrow> bool" where
  "is_False v = (v = PyBool False)"

text \<open>Lines 743--744: the two nested tests on the analysis of the segment.\<close>

definition converged :: "(string \<rightharpoonup> py_value) \<Rightarrow> py_error + bool" where
  "converged analysis =
     ebind (getitem analysis ''Epe,short_production_warning'') (\<lambda>s.
       if is_False s
       then ebind (getitem analysis ''Epe,few_neff_warning'') (\<lambda>f. Inr (is_False f))
       else Inr False)"

text \<open>
  Lines 750--756: every line of \<open>new_input_data\<close> that contains \<open>run\<close> has its second
  word doubled.  \<open>new_nsteps\<close> is a local that only this loop binds.
\<close>

fun double_runs :: "string list \<Rightarrow> int option \<Rightarrow> py_error + (string list \<times> int option)" where
  "double_runs [] new_nsteps = Inr ([], new_nsteps)"
| "double_runs (line # rest) new_nsteps =
     (if contains ''run'' line then
        (case split_ws line of
           w0 # w1 # ws \<Rightarrow>
             (case py_int w1 of
                None \<Rightarrow> Inl ValueError
              | Some k \<Rightarrow>
                  ebind (double_runs rest (Some (k * 2))) (\<lambda>(rest', n).
                    Inr (join ''              '' (w0 # py_str (k * 2) # ws) # rest', n)))
         | _ \<Rightarrow> Inl IndexError)
      else ebind (double_runs rest new_nsteps) (\<lambda>(rest', n). Inr (line # rest', n)))"

text \<open>
  The same loop, line by line, for stating what it computes: \<open>run_steps\<close> is
  \<open>int(line.split()[1])\<close> (\<open>None\<close> when that raises), \<open>set_steps line k\<close> is the line
  with its second word replaced by \<open>str(k)\<close> and its words joined by fourteen blanks,
  and \<open>double_line\<close> is what the loop leaves in place of a line.
\<close>

definition run_steps :: "string \<Rightarrow> int option" where
  "run_steps line = (case split_ws line of w0 # w1 # ws \<Rightarrow> py_int w1 | _ \<Rightarrow> None)"

definition set_steps :: "string \<Rightarrow> int \<Rightarrow> string" where
  "set_steps line k =
     (case split_ws line of
        w0 # w1 # ws \<Rightarrow> join ''              '' (w0 # py_str k # ws)
      | ws \<Rightarrow> join ''              '' ws)"

definition double_line :: "string \<Rightarrow> string" where
  "double_line line =
     (if contains ''run'' line
      then (case run_steps line of Some k \<Rightarrow> set_steps line (k * 2) | None \<Rightarrow> line)
      else line)"

text \<open>
  The variables of \<open>LAMMPS.run\<close> that the end of a pass reads or writes.  \<open>time_fs\<close> is
  the \<open>time\<close> parameter of the node, in femtoseconds.
\<close>

record 'n run_state =
  history_nodes :: "'n list"
  input_data :: "string list"
  new_input_data :: "string list"
  new_nsteps :: "int option"
  time_fs :: real
  iteration :: nat

datatype loop_control = Break | Continue

text \<open>Lines 750--769: the segment is extended and the loop goes round again.\<close>

definition extend_segment :: "real \<Rightarrow> 'n run_state \<Rightarrow> py_error + (loop_control \<times> 'n run_state)" where
  "extend_segment timestep st =
     ebind (double_runs (new_input_data st) (new_nsteps st)) (\<lambda>(lines, n).
       case n of
         None \<Rightarrow> Inl UnboundLocalError
       | Some k \<Rightarrow>
           Inr (Continue,
                st\<lparr>new_input_data := lines, new_nsteps := Some k,
                   time_fs := real_of_int k * timestep,
                   iteration := iteration st + 1\<rparr>))"

text \<open>Lines 740--769: the end of one pass, from the analysis of the segment.\<close>

definition loop_tail ::
  "string list \<Rightarrow> real \<Rightarrow> (string \<rightharpoonup> py_value) \<Rightarrow> 'n run_state
     \<Rightarrow> py_error + (loop_control \<times> 'n run_state)" where
  "loop_tail initialization_header timestep analysis st =
     ebind (converged analysis) (\<lambda>c.
       if c then Inr (Break, st\<lparr>history_nodes := [], input_data := initialization_header\<rparr>)
       else extend_segment timestep st)"

text \<open>
  The acceptance rule as the specification words it: every analysed property reports
  both warnings false.
\<close>

definition spec_all_properties_pass :: "(string \<rightharpoonup> py_value) \<Rightarrow> string list \<Rightarrow> bool" where
  "spec_all_properties_pass analysis properties =
     list_all (\<lambda>p. analysis (p @ '',short_production_warning'') = Some (PyBool False)
                 \<and> analysis (p @ '',few_neff_warning'') = Some (PyBool False)) properties"

section \<open>Reading a dump file\<close>

text \<open>
  \<open>float(s)\<close> on a string, for finite decimal literals: surrounding whitespace, a
  sign, digits with an optional fraction, an optional exponent.  \<open>None\<close> is the
  \<open>ValueError\<close>.  A float is modelled by the real number the literal denotes, so
  what \<open>float\<close> answers with a value that is not that number is outside the model: the
  literals \<open>inf\<close>, \<open>infinity\<close> and \<open>nan\<close> (here \<open>None\<close>), and a literal too large or
  too small for a double, such as \<open>1e400\<close> (here its exact value).
\<close>

fun digitpart :: "nat \<Rightarrow> nat \<Rightarrow> string \<Rightarrow> nat \<times> nat \<times> string" where
  "digitpart acc k [] = (acc, k, [])"
| "digitpart acc k (c # cs) =
     (if is_digit c then digitpart (10 * acc + digit_val c) (Suc k) cs
      else if c = CHR ''_'' \<and> 0 < k \<and> (case cs of [] \<Rightarrow> False | d # _ \<Rightarrow> is_digit d)
        then digitpart acc k cs
      else (acc, k, c # cs))"

definition sign_of :: "string \<Rightarrow> bool \<times> string" where
  "sign_of s =
     (case s of
        [] \<Rightarrow> (False, [])
      | c # cs \<Rightarrow>
          if c = CHR ''-'' then (True, cs)
          else if c = CHR ''+'' then (False, cs)
          else (False, c # cs))"

definition py_float :: "string \<Rightarrow> real option" where
  "py_float s =
     (case sign_of (strip_c s) of (neg, s1) \<Rightarrow>
      (case digitpart 0 0 s1 of (ip, ik, s2) \<Rightarrow>
       (case (case s2 of
                [] \<Rightarrow> (0, 0, [])
              | c # cs \<Rightarrow> if c = CHR ''.'' then digitpart 0 0 cs else (0, 0, c # cs))
        of (fp, fk, s3) \<Rightarrow>
          if ik = 0 \<and> fk = 0 then None
          else
            (let m = real ip + real fp / 10 ^ fk;
                 m' = (if neg then - m else m)
             in case s3 of
                  [] \<Rightarrow> Some m'
                | c # cs \<Rightarrow>
                    if c = CHR ''e'' \<or> c = CHR ''E'' then
                      (case sign_of cs of (eneg, s4) \<Rightarrow>
                       (case digitpart 0 0 s4 of (ev, ek, s5) \<Rightarrow>
                          if ek = 0 \<or> s5 \<noteq> [] then None
                          else Some (if eneg then m' / 10 ^ ev else m' * 10 ^ ev)))
                    else None))))"

definition to_float :: "string \<Rightarrow> py_error + real" where
  "to_float s = (case py_float s of None \<Rightarrow> Inl ValueError | Some x \<Rightarrow> Inr x)"

definition to_int :: "string \<Rightarrow> py_error + int" where
  "to_int s = (case py_int s of None \<Rightarrow> Inl ValueError | Some x \<Rightarrow> Inr x)"

text \<open>\<open>xs[i]\<close>, and the unpacking of a list into two, three or four names.\<close>

definition item :: "'a list \<Rightarrow> nat \<Rightarrow> py_error + 'a" where
  "item xs i = (if i < length xs then Inr (xs ! i) else Inl IndexError)"

definition unpack2 :: "'a list \<Rightarrow> py_error + ('a \<times> 'a)" where
  "unpack2 xs = (case xs of [a, b] \<Rightarrow> Inr (a, b) | _ \<Rightarrow> Inl ValueError)"

definition unpack3 :: "'a list \<Rightarrow> py_error + ('a \<times> 'a \<times> 'a)" where
  "unpack3 xs = (case xs of [a, b, c] \<Rightarrow> Inr (a, b, c) | _ \<Rightarrow> Inl ValueError)"

definition unpack4 :: "'a list \<Rightarrow> py_error + ('a \<times> 'a \<times> 'a \<times> 'a)" where
  "unpack4 xs = (case xs of [a, b, c, d] \<Rightarrow> Inr (a, b, c, d) | _ \<Rightarrow> Inl ValueError)"

text \<open>
  The part of \<open>seamm.data.structure\<close> that \<open>read_dump\<close> touches.  The \<open>cell\<close> entry
  may be absent.
\<close>

type_synonym point = "real \<times> real \<times> real"

record system =
  sys_periodicity :: int
  sys_cell :: "six option"
  elements :: "string list"
  coordinates :: "point list"

text \<open>
  The locals of \<open>read_dump\<close> while it walks the file.  \<open>cell_local\<close> is the local
  \<open>cell\<close>, unbound (\<open>None\<close>) until a box section has been processed.
\<close>

record dump_state =
  section_name :: string
  section_lines :: "string list"
  xyz_local :: "point list"
  cell_local :: "six option"

text \<open>Lines 2044--2046 and 2056--2058: the lines of an atoms section.\<close>

fun read_atoms :: "string list \<Rightarrow> point list \<Rightarrow> py_error + point list" where
  "read_atoms [] xyz = Inr xyz"
| "read_atoms (tmp # rest) xyz =
     ebind (unpack4 (split_ws tmp)) (\<lambda>(id, x, y, z).
     ebind (to_float x) (\<lambda>fx.
     ebind (to_float y) (\<lambda>fy.
     ebind (to_float z) (\<lambda>fz.
       read_atoms rest (xyz @ [(fx, fy, fz)])))))"

text \<open>Lines 1999--2020: a box given by bounds and tilt factors.\<close>

definition triclinic_box :: "string list \<Rightarrow> py_error + six" where
  "triclinic_box lines =
     ebind (item lines 0) (\<lambda>l0. ebind (unpack3 (split_ws l0)) (\<lambda>(s_xlo, s_xhi, s_xy).
     ebind (item lines 1) (\<lambda>l1. ebind (unpack3 (split_ws l1)) (\<lambda>(s_ylo, s_yhi, s_xz).
     ebind (item lines 2) (\<lambda>l2. ebind (unpack3 (split_ws l2)) (\<lambda>(s_zlo, s_zhi, s_yz).
     ebind (to_float s_xlo) (\<lambda>xlo_bound.
     ebind (to_float s_xhi) (\<lambda>xhi_bound.
     ebind (to_float s_ylo) (\<lambda>ylo_bound.
     ebind (to_float s_yhi) (\<lambda>yhi_bound.
     ebind (to_float s_zlo) (\<lambda>zlo.
     ebind (to_float s_zhi) (\<lambda>zhi.
     ebind (to_float s_xy) (\<lambda>xy.
     ebind (to_float s_xz) (\<lambda>xz.
     ebind (to_float s_yz) (\<lambda>yz.
       let xlo = xlo_bound - min 0 (min xy (min xz (xy + xz)));
           xhi = xhi_bound - max 0 (max xy (max xz (xy + xz)));
           ylo = ylo_bound - min 0 yz;
           yhi = yhi_bound - max 0 yz
       in box_to_cell (xhi - xlo) (yhi - ylo) (zhi - zlo) xy xz yz)))))))))))))))"

text \<open>Lines 2022--2035: a box given by bounds alone.\<close>

definition orthogonal_box :: "string list \<Rightarrow> py_error + six" where
  "orthogonal_box lines =
     ebind (item lines 0) (\<lambda>l0. ebind (unpack2 (split_ws l0)) (\<lambda>(s_xlo, s_xhi).
     ebind (item lines 1) (\<lambda>l1. ebind (unpack2 (split_ws l1)) (\<lambda>(s_ylo, s_yhi).
     ebind (item lines 2) (\<lambda>l2. ebind (unpack2 (split_ws l2)) (\<lambda>(s_zlo, s_zhi).
     ebind (to_float s_xlo) (\<lambda>xlo.
     ebind (to_float s_xhi) (\<lambda>xhi.
     ebind (to_float s_ylo) (\<lambda>ylo.
     ebind (to_float s_yhi) (\<lambda>yhi.
     ebind (to_float s_zlo) (\<lambda>zlo.
     ebind (to_float s_zhi) (\<lambda>zhi.
       Inr (xhi - xlo, yhi - ylo, zhi - zlo, 90, 90, 90)))))))))))))"

text \<open>Lines 1996--2048: what is done with a section when the next \<open>ITEM:\<close> line ends it.\<close>

definition end_section :: "nat \<Rightarrow> dump_state \<Rightarrow> py_error + dump_state" where
  "end_section n_atoms st =
     (if contains ''BOX BOUNDS'' (section_name st) then
        (if length (split_ws (section_name st)) = 8
         then ebind (triclinic_box (section_lines st)) (\<lambda>box_cell. Inr (st\<lparr>cell_local := Some box_cell\<rparr>))
         else ebind (orthogonal_box (section_lines st)) (\<lambda>box_cell. Inr (st\<lparr>cell_local := Some box_cell\<rparr>)))
      else if section_name st = ''NUMBER OF ATOMS'' then
        ebind (item (section_lines st) 0) (\<lambda>l0.
        ebind (to_int l0) (\<lambda>n.
          if n \<noteq> int n_atoms then Inl RuntimeError else Inr st))
      else if contains ''ATOMS'' (section_name st) then
        ebind (read_atoms (section_lines st) (xyz_local st)) (\<lambda>xyz'. Inr (st\<lparr>xyz_local := xyz'\<rparr>))
      else Inr st)"

text \<open>Lines 1981--2050, for the lines after the first.\<close>

fun dump_lines :: "nat \<Rightarrow> string list \<Rightarrow> dump_state \<Rightarrow> py_error + dump_state" where
  "dump_lines n_atoms [] st = Inr st"
| "dump_lines n_atoms (l # ls) st =
     (let line = strip l
      in if take 5 line = ''ITEM:'' then
           ebind (end_section n_atoms st) (\<lambda>st'.
             dump_lines n_atoms ls
               (st'\<lparr>section_name := strip (drop 6 line), section_lines := []\<rparr>))
         else dump_lines n_atoms ls (st\<lparr>section_lines := section_lines st @ [line]\<rparr>))"

text \<open>
  \<open>LAMMPS.read_dump\<close>, lines 1961--2062, on the lines of the file and the structure.
  The structure is written only by the last three lines of the function.
\<close>

definition read_dump :: "string list \<Rightarrow> system \<Rightarrow> py_error + system" where
  "read_dump file system =
     (let n_atoms = length (elements system);
          start = \<lparr>section_name = [], section_lines = [], xyz_local = [], cell_local = None\<rparr>
      in ebind
           (case file of
              [] \<Rightarrow> Inr start
            | l # ls \<Rightarrow>
                (let line = strip l
                 in if take 5 line \<noteq> ''ITEM:'' then Inl RuntimeError
                    else dump_lines n_atoms ls (start\<lparr>section_name := strip (drop 6 line)\<rparr>)))
           (\<lambda>st.
         ebind
           (if contains ''ATOMS'' (section_name st)
            then read_atoms (section_lines st) (xyz_local st) else Inr (xyz_local st))
           (\<lambda>xyz'.
              if sys_periodicity system = 3 then
                (case cell_local st of
                   None \<Rightarrow> Inl UnboundLocalError
                 | Some box_cell \<Rightarrow> Inr (system\<lparr>sys_cell := Some box_cell, coordinates := xyz'\<rparr>))
              else Inr (system\<lparr>coordinates := xyz'\<rparr>))))"

text \<open>The structure after the call, whether it returned or raised.\<close>

definition structure_after_read_dump :: "string list \<Rightarrow> system \<Rightarrow> system" where
  "structure_after_read_dump file system =
     (case read_dump file system of Inl e \<Rightarrow> system | Inr system' \<Rightarrow> system')"

section \<open>Facts about sequencing\<close>

lemma ebind_Inl [simp]: "ebind (Inl e) f = Inl e"
  by (simp add: ebind_def)

lemma ebind_Inr [simp]: "ebind (Inr x) f = f x"
  by (simp add: ebind_def)

lemma ebind_eq_Inr: "ebind m f = Inr y \<longleftrightarrow> (\<exists>x. m = Inr x \<and> f x = Inr y)"
  by (cases m) simp_all

section \<open>Checkpoint resolution: which file is read\<close>

lemma scan_dumps_name:
  "scan_dumps fs st = Inr st' \<Longrightarrow> fst st' = (if fs = [] then fst st else last fs)"
proof (induction fs arbitrary: st)
  case Nil
  then show ?case by simp
next
  case (Cons f fs)
  obtain p rl ls where st: "st = (p, rl, ls)"
    by (cases st) auto
  from Cons.prems st obtain ext m
    where r: "scan_dumps fs (f, rl @ [ext], py_str m) = Inr st'"
    by (auto split: option.splits sum.splits)
  from Cons.IH [OF r] show ?case by simp
qed

lemma scan_dumps_last:
  "scan_dumps fs (p, rl, ls) = Inr (p', rl', ls') \<Longrightarrow> fs \<noteq> [] \<Longrightarrow> p' = last fs"
  using scan_dumps_name [of fs "(p, rl, ls)" "(p', rl', ls')"] by simp

text \<open>
  Whenever the resolution returns, the path it hands to \<open>read_dump\<close> is built from
  the last name enumerated.
\<close>

lemma resolve_checkpoint_reads_last:
  assumes "resolve_checkpoint directory pattern fs = Inr (path, snap)"
  shows "path = path_join directory (replace_char (last fs) CHR ''*'' snap)"
proof -
  from assms have ne: "fs \<noteq> []"
    by (auto simp add: resolve_checkpoint_def)
  from assms obtain p' rl' where s: "scan_dumps fs (pattern, [], []) = Inr (p', rl', snap)"
    and p: "path = path_join directory (replace_char p' CHR ''*'' snap)"
    by (auto simp add: resolve_checkpoint_def split: if_splits sum.splits)
  from scan_dumps_last [OF s ne] p show ?thesis by simp
qed

text \<open>
  C1.  The specification asks that the checkpoint with the largest step count be
  the one that is read, whatever the order of enumeration.  In the code the pattern has
  been overwritten by the loop variable, so \<open>replace('*', last_snapshot)\<close> finds no
  star to replace and the file handed to \<open>read_dump\<close> is the last one enumerated:
  with a step-200 and a step-100 checkpoint matching the pattern, the file read is the
  step-100 one when it is listed last, and the step-200 one when the order is swapped.
  The maximum itself (\<open>''200''\<close>) is computed correctly in both orders.
\<close>

theorem resolve_checkpoint_reads_last_enumerated:
  "resolve_checkpoint ''/work'' ''lammps_substep_1_iter_0.dump.*''
     [''/work/lammps_substep_1_iter_0.dump.200'', ''/work/lammps_substep_1_iter_0.dump.100'']
     = Inr (''/work/lammps_substep_1_iter_0.dump.100'', ''200'')
   \<and> resolve_checkpoint ''/work'' ''lammps_substep_1_iter_0.dump.*''
     [''/work/lammps_substep_1_iter_0.dump.100'', ''/work/lammps_substep_1_iter_0.dump.200'']
     = Inr (''/work/lammps_substep_1_iter_0.dump.200'', ''200'')"
  by code_simp

section \<open>Cell round trip\<close>

lemma radians_90: "radians 90 = pi / 2"
  by (simp add: radians_def)

lemma radians_80: "radians 80 = 4 * pi / 9"
  by (simp add: radians_def)

lemma radians_60: "radians 60 = pi / 3"
  by (simp add: radians_def)

lemma sqrt_100: "sqrt 100 = 10"
  using real_sqrt_abs [of 10] by simp

lemma cos_80_pos: "0 < cos (4 * pi / 9)"
proof (rule cos_gt_zero_pi)
  show "- (pi / 2) < 4 * pi / 9" using pi_gt_zero by linarith
  show "4 * pi / 9 < pi / 2" using pi_gt_zero by linarith
qed

lemma sin_80_pos: "0 < sin (4 * pi / 9)"
proof (rule sin_gt_zero)
  show "0 < 4 * pi / 9" using pi_gt_zero by simp
  show "4 * pi / 9 < pi" using pi_gt_zero by linarith
qed

lemma sq_sin_80: "100 - (10 * cos (4 * pi / 9))\<^sup>2 = (10 * sin (4 * pi / 9))\<^sup>2"
proof -
  have "(cos (4 * pi / 9))\<^sup>2 = 1 - (sin (4 * pi / 9))\<^sup>2"
    by (simp add: cos_squared_eq)
  then show ?thesis
    by (simp add: power_mult_distrib)
qed

lemma sqrt_sin_80: "sqrt (100 - (10 * cos (4 * pi / 9))\<^sup>2) = 10 * sin (4 * pi / 9)"
proof -
  have "sqrt (100 - (10 * cos (4 * pi / 9))\<^sup>2) = \<bar>10 * sin (4 * pi / 9)\<bar>"
    by (simp only: sq_sin_80 real_sqrt_abs)
  then show ?thesis using sin_80_pos by simp
qed

lemma cell_to_box_80:
  "cell_to_box 10 10 10 80 90 90
     = Inr (0, 10, 10 * sin (4 * pi / 9), 0, 0, 10 * cos (4 * pi / 9))"
proof -
  have "0 \<le> 100 - (10 * cos (4 * pi / 9))\<^sup>2"
    by (simp only: sq_sin_80 zero_le_power2)
  then have nn: "\<not> 100 - (10 * cos (4 * pi / 9))\<^sup>2 < 0"
    by linarith
  show ?thesis
    using sqrt_sin_80 nn
    by (simp add: cell_to_box_def radians_90 radians_80 py_sqrt_def py_divide_def Let_def sqrt_100)
qed

lemma box_to_cell_80:
  "box_to_cell 0 10 (10 * sin (4 * pi / 9)) 0 0 (10 * cos (4 * pi / 9))
     = Inr (0, 10, 10, 90, 90, 90)"
proof -
  have "100 * (sin (4 * pi / 9))\<^sup>2 + 100 * (cos (4 * pi / 9))\<^sup>2
          = 100 * ((sin (4 * pi / 9))\<^sup>2 + (cos (4 * pi / 9))\<^sup>2)"
    by (simp only: distrib_left)
  also have "\<dots> = 100"
    by simp
  finally have e: "100 * (sin (4 * pi / 9))\<^sup>2 + 100 * (cos (4 * pi / 9))\<^sup>2 = 100" .
  have nz: "cos (4 * pi / 9) \<noteq> 0" using cos_80_pos by simp
  show ?thesis
    using nz
    by (simp add: box_to_cell_def py_sqrt_def py_divide_def py_acos_def degrees_def
        power_mult_distrib e sqrt_100 arccos_0)
qed

text \<open>
  C2.  The specification asks that the cubic cell \<open>(10, 10, 10, 90, 90, 90)\<close>
  convert to a box without tilt and come back unchanged, and that the cell
  \<open>(10, 10, 10, 80, 90, 90)\<close> come back within \<open>1e-6\<close>.  The box of the cubic cell
  has no tilt, as asked.  Coming back, \<open>box_to_cell\<close> answers a box without tilt
  with the angles \<open>0, 0, 0\<close>, not \<open>90, 90, 90\<close>; and \<open>cell_to_box\<close> sets
  \<open>lx = 0\<close> for every cell that is not right-angled, so the second cell comes back
  as \<open>(0, 10, 10, 90, 90, 90)\<close>.  At the first cell the code only compares and copies
  its arguments, so no rounding is involved; at the second \<open>a = lx = 0\<close> is exact too.
\<close>

theorem cell_roundtrip_not_identity:
  "cell_to_box 10 10 10 90 90 90 = Inr (10, 10, 10, 0, 0, 0)
   \<and> cell_roundtrip 10 10 10 90 90 90 = Inr (10, 10, 10, 0, 0, 0)
   \<and> cell_roundtrip 10 10 10 80 90 90 = Inr (0, 10, 10, 90, 90, 90)"
proof -
  have "cell_to_box 10 10 10 90 90 90 = Inr (10, 10, 10, 0, 0, 0)"
    by (simp add: cell_to_box_def)
  moreover have "cell_roundtrip 10 10 10 90 90 90 = Inr (10, 10, 10, 0, 0, 0)"
    by (simp add: cell_roundtrip_def cell_to_box_def box_to_cell_def)
  moreover have "cell_roundtrip 10 10 10 80 90 90 = Inr (0, 10, 10, 90, 90, 90)"
    by (simp add: cell_roundtrip_def cell_to_box_80 box_to_cell_80)
  ultimately show ?thesis by simp
qed

section \<open>Tilt factors in the structure file\<close>

lemma cell_to_box_60:
  "cell_to_box 10 10 10 90 60 90 = Inr (0, 10, sqrt 75, 0, 5, 0)"
  by (simp add: cell_to_box_def radians_90 radians_60 py_sqrt_def py_divide_def Let_def
      sqrt_100 cos_60)

text \<open>
  C10.  For a 3-periodic energy expression whose cell converts to a box with
  \<open>\<bar>xy\<bar> \<le> 1e-6\<close>, \<open>structure_data\<close> called with \<open>triclinic=False\<close> writes the
  three \<open>lo hi\<close> lines and no \<open>xy xz yz\<close> line, whatever \<open>xz\<close> and \<open>yz\<close> are: all
  three tilt factors are zeroed by the test on \<open>xy\<close>.
\<close>

theorem structure_data_tilt_test_on_xy:
  assumes "periodicity e = 3"
    and "cell e = (a, b, c, alpha, beta, gamma)"
    and "cell_to_box a b c alpha beta gamma = Inr (lx, ly, lz, xy, xz, yz)"
    and "\<bar>xy\<bar> \<le> 1 / 10 ^ 6"
  shows "box_section e False = Inr [LoHi 0 lx ''x'', LoHi 0 ly ''y'', LoHi 0 lz ''z'']"
  using assms by (simp add: box_section_def)

theorem structure_data_tilt_test_on_xy_witness:
  "cell_to_box 10 10 10 90 60 90 = Inr (0, 10, sqrt 75, 0, 5, 0)
   \<and> box_section \<lparr>periodicity = 3, cell = (10, 10, 10, 90, 60, 90), atoms = []\<rparr> False
      = Inr [LoHi 0 0 ''x'', LoHi 0 10 ''y'', LoHi 0 (sqrt 75) ''z'']"
  using structure_data_tilt_test_on_xy
    [of "\<lparr>periodicity = 3, cell = (10, 10, 10, 90, 60, 90), atoms = []\<rparr>"
        10 10 10 90 60 90 0 10 "sqrt 75" 0 5 0]
    cell_to_box_60
  by simp
section \<open>Units of the reported times\<close>

text \<open>
  C4, as stated: the buckets for the convergence time and the autocorrelation time
  start at \<open>4*10^9\<close>, \<open>4*10^6\<close> and \<open>4*10^3\<close>.  They do not: a time of \<open>1000\<close> is
  reported in picoseconds, where the stated boundaries keep it in femtoseconds.  The
  factor 4 belongs to the time axis of the plot (\<open>trajectory_time_units\<close>).
\<close>

theorem report_units_counterexample:
  "fst (conv_time_units 1000) = ''ps'' \<and> fst (tau_time_units 1000) = ''ps''
   \<and> spec_time_bucket 1000 = ''fs''"
  by (simp add: conv_time_units_def tau_time_units_def spec_time_bucket_def)

text \<open>
  C4, amended: for both times the unit is milliseconds from \<open>10^9\<close>, nanoseconds from
  \<open>10^6\<close>, picoseconds from \<open>10^3\<close>, and femtoseconds below.
\<close>

theorem report_units_boundaries:
  "(fst (conv_time_units v) = ''ms'' \<longleftrightarrow> v \<ge> 10 ^ 9)
   \<and> (fst (conv_time_units v) = ''ns'' \<longleftrightarrow> 10 ^ 6 \<le> v \<and> v < 10 ^ 9)
   \<and> (fst (conv_time_units v) = ''ps'' \<longleftrightarrow> 10 ^ 3 \<le> v \<and> v < 10 ^ 6)
   \<and> (fst (conv_time_units v) = ''fs'' \<longleftrightarrow> v < 10 ^ 3)
   \<and> (fst (tau_time_units v) = ''ms'' \<longleftrightarrow> v \<ge> 10 ^ 9)
   \<and> (fst (tau_time_units v) = ''ns'' \<longleftrightarrow> 10 ^ 6 \<le> v \<and> v < 10 ^ 9)
   \<and> (fst (tau_time_units v) = ''ps'' \<longleftrightarrow> 10 ^ 3 \<le> v \<and> v < 10 ^ 6)
   \<and> (fst (tau_time_units v) = ''fs'' \<longleftrightarrow> v < 10 ^ 3)"
  by (simp add: conv_time_units_def tau_time_units_def)

section \<open>The autocorrelation function and the short-production warning\<close>

text \<open>
  C5, as stated: with at least 10000 samples after equilibration the number of lags
  is \<open>min(4*ceil(g+0.5), len(tail)/2)\<close>.  The code rounds where the claim takes the
  ceiling: with \<open>g = 1.75\<close> and 10000 samples it asks for 8 lags, not 12.
\<close>

theorem acf_lags_counterexample:
  "acf_lags_requested
     (analyze_column
        \<lparr>detectEquilibration = (\<lambda>yy. (0, 7 / 4, 5000)),
         subsampleCorrelatedData = (\<lambda>y g. [0, 2, 4])\<rparr>
        1 (''Epe'', replicate 10000 0) initial_analysis) = [8]
   \<and> spec_nlags (7 / 4) 10000 = 12"
  by (simp add: acf_lags_requested_def analyze_column_def initial_analysis_def np_take_def
      acf_nlags_def py_round_def spec_nlags_def display_title_def Let_def)

text \<open>
  C5, amended: for a property whose decorrelation keeps at least one sample, a tail
  of at least 10000 samples makes the analyzer call the autocorrelation function on
  the tail with \<open>min(4*round(g+0.5), len(tail) div 2)\<close> lags (\<open>round\<close> to the nearest
  integer, a tie to the even one) and \<open>alpha = 0.05\<close>, and sets
  \<open>short_production_warning\<close> to false; a shorter tail makes no such call and sets
  the warning to true.
\<close>

theorem acf_and_short_production_warning:
  assumes "detectEquilibration ts yy = (conv, g, neff)"
    and "subsampleCorrelatedData ts (drop conv yy) g \<noteq> []"
    and "analyze_column ts dt_fs (column, yy) st = Inr st'"
  shows "(length (drop conv yy) \<ge> 10000 \<longrightarrow>
            acf_calls st' = acf_calls st @
              [\<lparr>acf_x = drop conv yy,
                acf_lags = min (4 * py_round (g + 1 / 2)) (int (length (drop conv yy) div 2)),
                acf_alpha = 5 / 100,
                acf_fft = (min (4 * py_round (g + 1 / 2)) (int (length (drop conv yy) div 2)) > 16),
                acf_unbiased = False\<rparr>]
            \<and> results st' (column @ '',short_production_warning'') = Some (PyBool False))
       \<and> (length (drop conv yy) < 10000 \<longrightarrow>
            acf_calls st' = acf_calls st
            \<and> results st' (column @ '',short_production_warning'') = Some (PyBool True))"
  using assms
  by (auto simp add: analyze_column_def Let_def acf_nlags_def min_def ebind_eq_Inr
      split: option.splits if_splits)

theorem acf_and_short_production_warning_witness:
  "\<exists>st'. analyze_column
            \<lparr>detectEquilibration = (\<lambda>yy. (500, 16 / 5, 3750)),
             subsampleCorrelatedData = (\<lambda>y g. [0, 4, 8])\<rparr>
            1 (''T'', replicate 12500 1) initial_analysis = Inr st'
     \<and> acf_calls st' =
         [\<lparr>acf_x = replicate 12000 1, acf_lags = 16, acf_alpha = 5 / 100,
           acf_fft = False, acf_unbiased = False\<rparr>]
     \<and> results st' ''T,short_production_warning'' = Some (PyBool False)"
proof -
  let ?ts = "\<lparr>detectEquilibration = (\<lambda>yy::real list. (500::nat, 16 / 5 :: real, 3750 :: real)),
              subsampleCorrelatedData = (\<lambda>(y::real list) (g::real). [0, 4, 8 :: int])\<rparr>"
  have d: "detectEquilibration ?ts (replicate 12500 1) = (500, 16 / 5, 3750)"
    by simp
  have s: "subsampleCorrelatedData ?ts (drop 500 (replicate 12500 1)) (16 / 5) \<noteq> []"
    by simp
  obtain st' where r: "analyze_column ?ts 1 (''T'', replicate 12500 1) initial_analysis = Inr st'"
    by (simp add: analyze_column_def np_take_def display_title_def Let_def)
  have "acf_calls st' =
         [\<lparr>acf_x = replicate 12000 1, acf_lags = 16, acf_alpha = 5 / 100,
           acf_fft = False, acf_unbiased = False\<rparr>]
     \<and> results st' ''T,short_production_warning'' = Some (PyBool False)"
    using acf_and_short_production_warning [OF d s r]
    by (simp add: py_round_def initial_analysis_def)
  with r show ?thesis by blast
qed

section \<open>The warning on too few independent samples\<close>

text \<open>
  C6, as stated: every stream whose decorrelation yields \<open>n_samples\<close> observations
  gets \<open>few_neff_warning\<close> true exactly when \<open>n_samples < 100\<close>.  A stream whose
  decorrelation yields none has \<open>n_samples = 0 < 100\<close> and gets no entry at all: the
  pass returns and the key is absent.
\<close>

theorem few_neff_warning_zero_samples_counterexample:
  "length (subsampleCorrelatedData
             \<lparr>detectEquilibration = (\<lambda>yy. (0, 1, 0)), subsampleCorrelatedData = (\<lambda>y g. [])\<rparr>
             (drop 0 [1, 2, 3]) 1) = 0
   \<and> few_neff_entry
        (analyze_column
           \<lparr>detectEquilibration = (\<lambda>yy. (0, 1, 0)), subsampleCorrelatedData = (\<lambda>y g. [])\<rparr>
           1 (''Epe'', [1, 2, 3]) initial_analysis) ''Epe'' = Inr None"
  by (simp add: few_neff_entry_def analyze_column_def initial_analysis_def Let_def)

text \<open>
  C6, amended: for a property that \<open>display_title\<close> names and whose decorrelation
  keeps \<open>n_samples \<ge> 1\<close> observations, at indices inside the equilibrated tail, the
  pass returns, records \<open>n_samples\<close>, and sets \<open>few_neff_warning\<close> to true exactly when
  \<open>n_samples < 100\<close>.  The witness is at 100 samples (false) and at 99 (true).
\<close>

theorem few_neff_warning_iff_below_100:
  assumes "detectEquilibration ts yy = (conv, g, neff)"
    and "subsampleCorrelatedData ts (drop conv yy) g = indices"
    and "indices \<noteq> []"
    and "\<forall>i \<in> set indices. - int (length (drop conv yy)) \<le> i \<and> i < int (length (drop conv yy))"
    and "column \<in> fst ` set display_title"
  shows "\<exists>st'. analyze_column ts dt_fs (column, yy) st = Inr st'
           \<and> results st' (column @ '',n_sample'') = Some (PyInt (int (length indices)))
           \<and> results st' (column @ '',few_neff_warning'') = Some (PyBool (length indices < 100))"
proof -
  from assms(5) obtain title where t: "map_of display_title column = Some title"
    by (metis weak_map_of_SomeI imageE prod.collapse map_of_eq_None_iff not_None_eq)
  from assms(4) have r: "np_take (drop conv yy) indices =
      Inr (map (\<lambda>i. drop conv yy ! nat (if i < 0 then i + int (length (drop conv yy)) else i)) indices)"
    by (simp add: np_take_def list_all_iff)
  show ?thesis
    using assms(1,2,3) t r
    by (simp add: analyze_column_def Let_def)
qed

theorem few_neff_warning_iff_below_100_witness:
  "(\<exists>st'. analyze_column
             \<lparr>detectEquilibration = (\<lambda>yy. (0, 1, real (length yy))),
              subsampleCorrelatedData = (\<lambda>y g. map int [0..<length y])\<rparr>
             1 (''Epe'', replicate 100 0) initial_analysis = Inr st'
      \<and> results st' ''Epe,n_sample'' = Some (PyInt 100)
      \<and> results st' ''Epe,few_neff_warning'' = Some (PyBool False))
   \<and> (\<exists>st'. analyze_column
             \<lparr>detectEquilibration = (\<lambda>yy. (0, 1, real (length yy))),
              subsampleCorrelatedData = (\<lambda>y g. map int [0..<length y])\<rparr>
             1 (''Epe'', replicate 99 0) initial_analysis = Inr st'
      \<and> results st' ''Epe,n_sample'' = Some (PyInt 99)
      \<and> results st' ''Epe,few_neff_warning'' = Some (PyBool True))"
proof -
  let ?ts = "\<lparr>detectEquilibration = (\<lambda>yy::real list. (0::nat, 1::real, real (length yy))),
              subsampleCorrelatedData = (\<lambda>(y::real list) (g::real). map int [0..<length y])\<rparr>"
  have k: "''Epe'' \<in> fst ` set display_title"
    by (simp add: display_title_def)
  have a: "\<exists>st'. analyze_column ?ts 1 (''Epe'', replicate 100 0) initial_analysis = Inr st'
      \<and> results st' ''Epe,n_sample'' = Some (PyInt 100)
      \<and> results st' ''Epe,few_neff_warning'' = Some (PyBool False)"
    using few_neff_warning_iff_below_100 [of ?ts "replicate 100 0" 0 1 100 "map int [0..<100]" "''Epe''" 1 initial_analysis] k
    by simp
  have b: "\<exists>st'. analyze_column ?ts 1 (''Epe'', replicate 99 0) initial_analysis = Inr st'
      \<and> results st' ''Epe,n_sample'' = Some (PyInt 99)
      \<and> results st' ''Epe,few_neff_warning'' = Some (PyBool True)"
    using few_neff_warning_iff_below_100 [of ?ts "replicate 99 0" 0 1 99 "map int [0..<99]" "''Epe''" 1 initial_analysis] k
    by simp
  from a b show ?thesis by blast
qed

section \<open>A property without independent samples is skipped\<close>

text \<open>
  C7.  When the decorrelation of a property keeps no sample, the pass over that
  column returns normally with the \<open>results\<close>, the report and the autocorrelation calls
  as they were: only the printed lines grow, the first naming the column.  The loop then
  goes on with the remaining columns.
\<close>

theorem zero_samples_column_skipped:
  assumes "detectEquilibration ts yy = (conv, g, neff)"
    and "subsampleCorrelatedData ts (drop conv yy) g = []"
  shows "analyze_column ts dt_fs (column, yy) st =
           Inr (st\<lparr>printed_out := printed_out st @
                     [PStr (''Problem with column '' @ column),
                      PStr ''yy'', PArray yy,
                      PStr ''y_t_equil'', PArray (drop conv yy),
                      PStr ''indices'', PIndices []],
                   have_warning := Some False,
                   have_acf_warning := Some False\<rparr>)
       \<and> analyze_columns ts dt_fs ((column, yy) # rest) st =
           analyze_columns ts dt_fs rest
             (st\<lparr>printed_out := printed_out st @
                     [PStr (''Problem with column '' @ column),
                      PStr ''yy'', PArray yy,
                      PStr ''y_t_equil'', PArray (drop conv yy),
                      PStr ''indices'', PIndices []],
                  have_warning := Some False,
                  have_acf_warning := Some False\<rparr>)"
  using assms
  by (simp add: analyze_column_def Let_def)

theorem zero_samples_column_skipped_witness:
  "\<exists>st'. analyze_columns
            \<lparr>detectEquilibration = (\<lambda>yy. (0, real (length yy), 1)),
             subsampleCorrelatedData = (\<lambda>y g. if g < 2 then [] else [0, 2])\<rparr>
            1 [(''T'', [300]), (''Epe'', [1, 2, 3])] initial_analysis = Inr st'
     \<and> results st' ''T'' = None
     \<and> results st' ''T,few_neff_warning'' = None
     \<and> results st' ''T,short_production_warning'' = None
     \<and> results st' ''Epe'' = Some (PyFloat 2)
     \<and> printed_out st' =
         [PStr ''Problem with column T'', PStr ''yy'', PArray [300],
          PStr ''y_t_equil'', PArray [300], PStr ''indices'', PIndices []]"
proof -
  let ?ts = "\<lparr>detectEquilibration = (\<lambda>yy::real list. (0::nat, real (length yy), 1::real)),
              subsampleCorrelatedData =
                (\<lambda>(y::real list) (g::real). if g < 2 then [] else [0, 2 :: int])\<rparr>"
  have d: "detectEquilibration ?ts [300] = (0, 1, 1)"
    by simp
  have s: "subsampleCorrelatedData ?ts (drop 0 [300]) 1 = []"
    by simp
  show ?thesis
    using zero_samples_column_skipped [OF d s, of 1 "''T''" initial_analysis "[(''Epe'', [1, 2, 3])]"]
    by (simp add: analyze_column_def np_take_def np_mean_def display_title_def Let_def
        initial_analysis_def)
qed

section \<open>The acceptance rule of the run loop\<close>

lemma converged_iff:
  "converged analysis = Inr True \<longleftrightarrow>
     analysis ''Epe,short_production_warning'' = Some (PyBool False)
     \<and> analysis ''Epe,few_neff_warning'' = Some (PyBool False)"
  by (auto simp add: converged_def getitem_def is_False_def ebind_eq_Inr
      split: option.splits if_splits)

lemma extend_segment_not_Break: "extend_segment timestep st \<noteq> Inr (Break, st')"
  by (auto simp add: extend_segment_def ebind_def split: sum.splits option.splits prod.splits)

lemma loop_tail_Break_iff:
  "loop_tail hdr timestep analysis st = Inr (Break, st') \<longleftrightarrow>
      analysis ''Epe,short_production_warning'' = Some (PyBool False)
      \<and> analysis ''Epe,few_neff_warning'' = Some (PyBool False)
      \<and> st' = st\<lparr>history_nodes := [], input_data := hdr\<rparr>"
proof
  assume b: "loop_tail hdr timestep analysis st = Inr (Break, st')"
  then obtain c where c: "converged analysis = Inr c"
    and r: "(if c then Inr (Break, st\<lparr>history_nodes := [], input_data := hdr\<rparr>)
             else extend_segment timestep st) = Inr (Break, st')"
    by (auto simp add: loop_tail_def ebind_eq_Inr)
  have "c" using r extend_segment_not_Break [of timestep st st'] by (cases c) auto
  with c r show "analysis ''Epe,short_production_warning'' = Some (PyBool False)
      \<and> analysis ''Epe,few_neff_warning'' = Some (PyBool False)
      \<and> st' = st\<lparr>history_nodes := [], input_data := hdr\<rparr>"
    by (auto simp add: converged_iff)
next
  assume "analysis ''Epe,short_production_warning'' = Some (PyBool False)
      \<and> analysis ''Epe,few_neff_warning'' = Some (PyBool False)
      \<and> st' = st\<lparr>history_nodes := [], input_data := hdr\<rparr>"
  then show "loop_tail hdr timestep analysis st = Inr (Break, st')"
    by (simp add: loop_tail_def converged_def getitem_def is_False_def)
qed

lemma loop_tail_extends:
  assumes "analysis ''Epe,short_production_warning'' = Some (PyBool True)
        \<or> (analysis ''Epe,short_production_warning'' = Some (PyBool False)
            \<and> analysis ''Epe,few_neff_warning'' = Some (PyBool True))"
  shows "loop_tail hdr timestep analysis st = extend_segment timestep st"
  using assms by (auto simp add: loop_tail_def converged_def getitem_def is_False_def)

lemma double_runs_total:
  assumes "\<forall>line \<in> set ls. contains ''run'' line \<longrightarrow> run_steps line \<noteq> None"
  shows "double_runs ls n0 =
           Inr (map double_line ls,
                if filter (contains ''run'') ls = [] then n0
                else map_option (\<lambda>k. k * 2) (run_steps (last (filter (contains ''run'') ls))))"
  using assms
proof (induction ls arbitrary: n0)
  case Nil
  then show ?case by simp
next
  case (Cons line rest)
  have rest: "\<forall>l \<in> set rest. contains ''run'' l \<longrightarrow> run_steps l \<noteq> None"
    using Cons.prems by simp
  show ?case
  proof (cases "contains ''run'' line")
    case False
    then show ?thesis
      using Cons.IH [OF rest, of n0] by (simp add: double_line_def)
  next
    case True
    with Cons.prems obtain k where k: "run_steps line = Some k"
      by auto
    then obtain w0 w1 ws where w: "split_ws line = w0 # w1 # ws" and i: "py_int w1 = Some k"
      by (auto simp add: run_steps_def split: list.splits)
    show ?thesis
      using True k w i Cons.IH [OF rest, of "Some (k * 2)"]
      by (simp add: double_line_def set_steps_def)
  qed
qed


lemma extend_segment_total:
  assumes "\<forall>line \<in> set (new_input_data st). contains ''run'' line \<longrightarrow> run_steps line \<noteq> None"
    and "filter (contains ''run'') (new_input_data st) \<noteq> []"
    and "run_steps (last (filter (contains ''run'') (new_input_data st))) = Some n"
  shows "extend_segment timestep st =
           Inr (Continue,
                st\<lparr>new_input_data := map double_line (new_input_data st),
                   new_nsteps := Some (n * 2),
                   time_fs := real_of_int (n * 2) * timestep,
                   iteration := iteration st + 1\<rparr>)"
  using assms(2,3)
  by (simp add: extend_segment_def double_runs_total [OF assms(1)])

lemma extension_example:
  "(\<forall>line \<in> set [''run                 1000'', ''thermo 10'', ''run 250''].
      contains ''run'' line \<longrightarrow> run_steps line \<noteq> None)
   \<and> filter (contains ''run'') [''run                 1000'', ''thermo 10'', ''run 250''] \<noteq> []
   \<and> run_steps (last (filter (contains ''run'')
        [''run                 1000'', ''thermo 10'', ''run 250''])) = Some 250
   \<and> map double_line [''run                 1000'', ''thermo 10'', ''run 250'']
       = [''run              2000'', ''thermo 10'', ''run              500'']"
  by code_simp

text \<open>
  C3, as stated: the segment is declared converged exactly when every analysed
  property reports both warnings false.  The code reads the two warnings of the
  potential energy \<open>Epe\<close> and of no other property: with both \<open>Epe\<close> warnings false and
  \<open>few_neff_warning\<close> true for the temperature \<open>T\<close>, the loop resets the history and
  exits.
\<close>

theorem converged_despite_other_property_counterexample:
  "loop_tail [''units real''] 1
     (map_of
       [(''Epe,short_production_warning'', PyBool False),
        (''Epe,few_neff_warning'', PyBool False),
        (''T,short_production_warning'', PyBool False),
        (''T,few_neff_warning'', PyBool True)])
     \<lparr>history_nodes = [''1''], input_data = [''units real'', ''run 500''],
      new_input_data = [''run 1000''], new_nsteps = None, time_fs = 1000, iteration = 0\<rparr>
   = Inr (Break,
          \<lparr>history_nodes = [], input_data = [''units real''],
           new_input_data = [''run 1000''], new_nsteps = None, time_fs = 1000, iteration = 0\<rparr>)
   \<and> \<not> spec_all_properties_pass
       (map_of
         [(''Epe,short_production_warning'', PyBool False),
          (''Epe,few_neff_warning'', PyBool False),
          (''T,short_production_warning'', PyBool False),
          (''T,few_neff_warning'', PyBool True)])
       [''Epe'', ''T'']"
  by (simp add: loop_tail_def converged_def getitem_def is_False_def spec_all_properties_pass_def)

text \<open>
  C3, amended: the pass ends the loop, with the history reset to empty and the input
  reset to the initialization header, exactly when the analysis of the segment has
  \<open>Epe,short_production_warning\<close> and \<open>Epe,few_neff_warning\<close> both \<open>False\<close>.  When
  either of the two is \<open>True\<close> the pass takes the extension branch; and when every
  line of the segment's input that contains \<open>run\<close> has an integer second word, and
  there is such a line, that branch returns: every such line has its second word
  doubled, \<open>new_nsteps\<close> is the doubled count of the last of them, the time of the
  node is \<open>new_nsteps * timestep\<close>, the iteration count is one more, and the loop goes
  round again.
\<close>

theorem converged_iff_Epe_warnings_false:
  "(loop_tail hdr timestep analysis st = Inr (Break, st') \<longleftrightarrow>
      analysis ''Epe,short_production_warning'' = Some (PyBool False)
      \<and> analysis ''Epe,few_neff_warning'' = Some (PyBool False)
      \<and> st' = st\<lparr>history_nodes := [], input_data := hdr\<rparr>)
   \<and> (analysis ''Epe,short_production_warning'' = Some (PyBool True)
        \<or> (analysis ''Epe,short_production_warning'' = Some (PyBool False)
            \<and> analysis ''Epe,few_neff_warning'' = Some (PyBool True))
      \<longrightarrow> loop_tail hdr timestep analysis st = extend_segment timestep st)
   \<and> ((analysis ''Epe,short_production_warning'' = Some (PyBool True)
         \<or> (analysis ''Epe,short_production_warning'' = Some (PyBool False)
             \<and> analysis ''Epe,few_neff_warning'' = Some (PyBool True)))
       \<and> (\<forall>line \<in> set (new_input_data st). contains ''run'' line \<longrightarrow> run_steps line \<noteq> None)
       \<and> filter (contains ''run'') (new_input_data st) \<noteq> []
       \<and> run_steps (last (filter (contains ''run'') (new_input_data st))) = Some n
      \<longrightarrow> loop_tail hdr timestep analysis st =
            Inr (Continue,
                 st\<lparr>new_input_data := map double_line (new_input_data st),
                    new_nsteps := Some (n * 2),
                    time_fs := real_of_int (n * 2) * timestep,
                    iteration := iteration st + 1\<rparr>))"
proof (intro conjI)
  show "loop_tail hdr timestep analysis st = Inr (Break, st') \<longleftrightarrow>
      analysis ''Epe,short_production_warning'' = Some (PyBool False)
      \<and> analysis ''Epe,few_neff_warning'' = Some (PyBool False)
      \<and> st' = st\<lparr>history_nodes := [], input_data := hdr\<rparr>"
    by (rule loop_tail_Break_iff)
next
  show "analysis ''Epe,short_production_warning'' = Some (PyBool True)
        \<or> (analysis ''Epe,short_production_warning'' = Some (PyBool False)
            \<and> analysis ''Epe,few_neff_warning'' = Some (PyBool True))
      \<longrightarrow> loop_tail hdr timestep analysis st = extend_segment timestep st"
    using loop_tail_extends [of analysis hdr timestep st] by blast
next
  show "(analysis ''Epe,short_production_warning'' = Some (PyBool True)
         \<or> (analysis ''Epe,short_production_warning'' = Some (PyBool False)
             \<and> analysis ''Epe,few_neff_warning'' = Some (PyBool True)))
       \<and> (\<forall>line \<in> set (new_input_data st). contains ''run'' line \<longrightarrow> run_steps line \<noteq> None)
       \<and> filter (contains ''run'') (new_input_data st) \<noteq> []
       \<and> run_steps (last (filter (contains ''run'') (new_input_data st))) = Some n
      \<longrightarrow> loop_tail hdr timestep analysis st =
            Inr (Continue,
                 st\<lparr>new_input_data := map double_line (new_input_data st),
                    new_nsteps := Some (n * 2),
                    time_fs := real_of_int (n * 2) * timestep,
                    iteration := iteration st + 1\<rparr>)"
    using loop_tail_extends [of analysis hdr timestep st]
      extend_segment_total [of st n timestep]
    by auto
qed

theorem converged_iff_Epe_warnings_false_witness:
  "loop_tail [''units real''] 2
     (map_of
       [(''Epe,short_production_warning'', PyBool False),
        (''Epe,few_neff_warning'', PyBool True)])
     \<lparr>history_nodes = [''1''], input_data = [''units real''],
      new_input_data = [''run                 1000'', ''thermo 10'', ''run 250''],
      new_nsteps = None, time_fs = 500, iteration = 2\<rparr>
   = Inr (Continue,
          \<lparr>history_nodes = [''1''], input_data = [''units real''],
           new_input_data = [''run              2000'', ''thermo 10'', ''run              500''],
           new_nsteps = Some 500, time_fs = 1000, iteration = 3\<rparr>)"
proof -
  let ?A = "map_of [(''Epe,short_production_warning'', PyBool False),
                    (''Epe,few_neff_warning'', PyBool True)]"
  let ?S = "\<lparr>history_nodes = [''1''], input_data = [''units real''],
             new_input_data = [''run                 1000'', ''thermo 10'', ''run 250''],
             new_nsteps = None, time_fs = 500, iteration = 2 :: nat\<rparr>"
  have h: "?A ''Epe,short_production_warning'' = Some (PyBool False)
           \<and> ?A ''Epe,few_neff_warning'' = Some (PyBool True)"
    by simp
  have l1: "\<forall>line \<in> set (new_input_data ?S). contains ''run'' line \<longrightarrow> run_steps line \<noteq> None"
    using extension_example by simp
  have l2: "filter (contains ''run'') (new_input_data ?S) \<noteq> []"
    using extension_example by simp
  have l3: "run_steps (last (filter (contains ''run'') (new_input_data ?S))) = Some 250"
    using extension_example by simp
  have "loop_tail [''units real''] 2 ?A ?S =
          Inr (Continue,
               ?S\<lparr>new_input_data := map double_line (new_input_data ?S),
                  new_nsteps := Some (250 * 2),
                  time_fs := real_of_int (250 * 2) * 2,
                  iteration := iteration ?S + 1\<rparr>)"
    using converged_iff_Epe_warnings_false [of "[''units real'']" 2 ?A ?S ?S 250] h l1 l2 l3 by blast
  then show ?thesis
    using extension_example by simp
qed

section \<open>Reading a dump file: the structure outside the coordinates\<close>

lemmas string_method_defs =
  strip_def is_space_def strip_c_def is_c_space_def is_digit_def digit_val_def split_ws_def py_int_def py_float_def
  sign_of_def to_float_def to_int_def item_def unpack2_def unpack3_def unpack4_def

text \<open>
  C9.  On a structure whose periodicity is not 3, \<open>read_dump\<close> leaves the cell as it
  was, for every file, whether the call returns or raises: the structure after the call
  differs from the one before in its coordinates at most.
\<close>

theorem read_dump_keeps_cell_unless_periodic:
  assumes "sys_periodicity system \<noteq> 3"
  shows "sys_cell (structure_after_read_dump file system) = sys_cell system
       \<and> (\<exists>xyz. structure_after_read_dump file system = system\<lparr>coordinates := xyz\<rparr>)"
proof (cases "read_dump file system")
  case (Inl e)
  then have "structure_after_read_dump file system = system\<lparr>coordinates := coordinates system\<rparr>"
    by (simp add: structure_after_read_dump_def)
  then show ?thesis by (metis system.select_convs(2) system.surjective system.update_convs(4))
next
  case (Inr system')
  then obtain xyz where "system' = system\<lparr>coordinates := xyz\<rparr>"
    using assms
    by (auto simp add: read_dump_def Let_def ebind_eq_Inr split: if_splits)
  with Inr show ?thesis
    by (auto simp add: structure_after_read_dump_def)
qed

theorem read_dump_keeps_cell_unless_periodic_witness:
  "sys_periodicity \<lparr>sys_periodicity = 0, sys_cell = Some (5, 5, 5, 90, 90, 90),
                    elements = [''C''], coordinates = [(0, 0, 0)]\<rparr> \<noteq> 3
   \<and> structure_after_read_dump
       [''ITEM: TIMESTEP'', ''0'', ''ITEM: NUMBER OF ATOMS'', ''1'',
        ''ITEM: BOX BOUNDS pp pp pp'', ''0 10'', ''0 10'', ''0 10'',
        ''ITEM: ATOMS id xu yu zu'', ''1 0.5 1.5 2.5'']
       \<lparr>sys_periodicity = 0, sys_cell = Some (5, 5, 5, 90, 90, 90),
        elements = [''C''], coordinates = [(0, 0, 0)]\<rparr>
     = \<lparr>sys_periodicity = 0, sys_cell = Some (5, 5, 5, 90, 90, 90),
        elements = [''C''], coordinates = [(1 / 2, 3 / 2, 5 / 2)]\<rparr>"
  using read_dump_keeps_cell_unless_periodic
    [of "\<lparr>sys_periodicity = 0, sys_cell = Some (5, 5, 5, 90, 90, 90),
          elements = [''C''], coordinates = [(0, 0, 0)]\<rparr>"
        "[''ITEM: TIMESTEP'', ''0'', ''ITEM: NUMBER OF ATOMS'', ''1'',
          ''ITEM: BOX BOUNDS pp pp pp'', ''0 10'', ''0 10'', ''0 10'',
          ''ITEM: ATOMS id xu yu zu'', ''1 0.5 1.5 2.5'']"]
  by (simp add: structure_after_read_dump_def read_dump_def end_section_def orthogonal_box_def
      string_method_defs Let_def)

section \<open>Reading a dump file: atom count and box formats\<close>

lemma end_section_count_mismatch:
  assumes "section_name st = ''NUMBER OF ATOMS''"
    and "item (section_lines st) 0 = Inr l"
    and "to_int l = Inr n"
    and "n \<noteq> int n_atoms"
  shows "end_section n_atoms st = Inl RuntimeError"
  using assms by (simp add: end_section_def)

lemma box_to_cell_flat: "box_to_cell 100 10 10 0 0 5 = Inl ValueError"
proof -
  have lt: "sqrt 125 < 50" by (rule real_less_lsqrt) simp_all
  have pos: "0 < sqrt 125" by simp
  have nz: "sqrt 125 \<noteq> 0" using pos by simp
  have "1 < 500 / (10 * sqrt 125)" using lt pos by (simp add: field_simps)
  then have q: "\<not> 500 / (10 * sqrt 125) \<le> 1" by simp
  show ?thesis
    using q nz
    by (simp add: box_to_cell_def py_sqrt_def py_divide_def py_acos_def sqrt_100)
qed

text \<open>
  C8.  The specification asks that a dump whose declared atom count differs from the
  structure's be rejected, and that with matching counts both box formats be accepted.
  The first dump below has the axis-aligned box: it is rejected with \<open>RuntimeError\<close>
  for a structure of two atoms and read for a structure of one.  The second declares
  one atom too and has the triclinic box of a cell with \<open>lx = 100\<close>, \<open>ly = lz = 10\<close> and
  \<open>yz = 5\<close>: for the structure of one atom \<open>read_dump\<close> raises \<open>ValueError\<close>, out of
  \<open>box_to_cell\<close>, whose quotient \<open>(xy*xz + lx*yz) / (b*c)\<close> is above 1 and outside the
  domain of \<open>acos\<close>.
\<close>

theorem read_dump_rejects_triclinic_box:
  "read_dump
     [''ITEM: TIMESTEP'', ''0'', ''ITEM: NUMBER OF ATOMS'', ''1'',
      ''ITEM: BOX BOUNDS pp pp pp'', ''0 10'', ''0 10'', ''0 10'',
      ''ITEM: ATOMS id xu yu zu'', ''1 0.5 1.5 2.5'']
     \<lparr>sys_periodicity = 3, sys_cell = None, elements = [''C'', ''H''], coordinates = []\<rparr>
     = Inl RuntimeError
   \<and> read_dump
     [''ITEM: TIMESTEP'', ''0'', ''ITEM: NUMBER OF ATOMS'', ''1'',
      ''ITEM: BOX BOUNDS pp pp pp'', ''0 10'', ''0 10'', ''0 10'',
      ''ITEM: ATOMS id xu yu zu'', ''1 0.5 1.5 2.5'']
     \<lparr>sys_periodicity = 3, sys_cell = None, elements = [''C''], coordinates = []\<rparr>
     = Inr \<lparr>sys_periodicity = 3, sys_cell = Some (10, 10, 10, 90, 90, 90),
            elements = [''C''], coordinates = [(1 / 2, 3 / 2, 5 / 2)]\<rparr>
   \<and> read_dump
     [''ITEM: TIMESTEP'', ''0'', ''ITEM: NUMBER OF ATOMS'', ''1'',
      ''ITEM: BOX BOUNDS xy xz yz pp pp pp'', ''0 100 0'', ''0 15 0'', ''0 10 5'',
      ''ITEM: ATOMS id xu yu zu'', ''1 0.5 1.5 2.5'']
     \<lparr>sys_periodicity = 3, sys_cell = None, elements = [''C''], coordinates = []\<rparr>
     = Inl ValueError"
proof -
  have "read_dump
     [''ITEM: TIMESTEP'', ''0'', ''ITEM: NUMBER OF ATOMS'', ''1'',
      ''ITEM: BOX BOUNDS pp pp pp'', ''0 10'', ''0 10'', ''0 10'',
      ''ITEM: ATOMS id xu yu zu'', ''1 0.5 1.5 2.5'']
     \<lparr>sys_periodicity = 3, sys_cell = None, elements = [''C'', ''H''], coordinates = []\<rparr>
     = Inl RuntimeError"
    by (simp add: read_dump_def end_section_def orthogonal_box_def string_method_defs Let_def)
  moreover have "read_dump
     [''ITEM: TIMESTEP'', ''0'', ''ITEM: NUMBER OF ATOMS'', ''1'',
      ''ITEM: BOX BOUNDS pp pp pp'', ''0 10'', ''0 10'', ''0 10'',
      ''ITEM: ATOMS id xu yu zu'', ''1 0.5 1.5 2.5'']
     \<lparr>sys_periodicity = 3, sys_cell = None, elements = [''C''], coordinates = []\<rparr>
     = Inr \<lparr>sys_periodicity = 3, sys_cell = Some (10, 10, 10, 90, 90, 90),
            elements = [''C''], coordinates = [(1 / 2, 3 / 2, 5 / 2)]\<rparr>"
    by (simp add: read_dump_def end_section_def orthogonal_box_def string_method_defs Let_def)
  moreover have "read_dump
     [''ITEM: TIMESTEP'', ''0'', ''ITEM: NUMBER OF ATOMS'', ''1'',
      ''ITEM: BOX BOUNDS xy xz yz pp pp pp'', ''0 100 0'', ''0 15 0'', ''0 10 5'',
      ''ITEM: ATOMS id xu yu zu'', ''1 0.5 1.5 2.5'']
     \<lparr>sys_periodicity = 3, sys_cell = None, elements = [''C''], coordinates = []\<rparr>
     = Inl ValueError"
    by (simp add: read_dump_def end_section_def triclinic_box_def string_method_defs Let_def
        box_to_cell_flat)
  ultimately show ?thesis by simp
qed

end
